theory Spec2Isabelle
  imports Complex_Main
begin

section \<open>JavaScript values used by the monitor and the executor\<close>

text \<open>
  The program is TypeScript. Its numbers are IEEE doubles; here a number is \<open>NaN\<close>, one of
  the two infinities, or an exact rational, so rounding of the binary representation is not
  part of the model while the special values, which steer every comparison of the program,
  are. Signed zero is a single zero.
\<close>

datatype jsnum = NaN | PInf | NInf | Fin rat

fun js_isNaN :: "jsnum \<Rightarrow> bool" where
  "js_isNaN NaN = True"
| "js_isNaN _ = False"

fun js_neg :: "jsnum \<Rightarrow> jsnum" where
  "js_neg NaN = NaN"
| "js_neg PInf = NInf"
| "js_neg NInf = PInf"
| "js_neg (Fin a) = Fin (- a)"

fun js_add :: "jsnum \<Rightarrow> jsnum \<Rightarrow> jsnum" where
  "js_add NaN _ = NaN"
| "js_add _ NaN = NaN"
| "js_add PInf NInf = NaN"
| "js_add NInf PInf = NaN"
| "js_add PInf _ = PInf"
| "js_add _ PInf = PInf"
| "js_add NInf _ = NInf"
| "js_add _ NInf = NInf"
| "js_add (Fin a) (Fin b) = Fin (a + b)"

definition js_sub :: "jsnum \<Rightarrow> jsnum \<Rightarrow> jsnum" where
  "js_sub a b = js_add a (js_neg b)"

text \<open>The sign of a number that is not \<open>NaN\<close>: \<open>-1\<close>, \<open>0\<close> or \<open>1\<close>.\<close>

fun js_sgn :: "jsnum \<Rightarrow> int" where
  "js_sgn NaN = 0"
| "js_sgn PInf = 1"
| "js_sgn NInf = - 1"
| "js_sgn (Fin a) = (if a < 0 then - 1 else if a = 0 then 0 else 1)"

definition signed_inf :: "int \<Rightarrow> jsnum" where
  "signed_inf s = (if s = 0 then NaN else if s < 0 then NInf else PInf)"

fun js_mul :: "jsnum \<Rightarrow> jsnum \<Rightarrow> jsnum" where
  "js_mul NaN _ = NaN"
| "js_mul _ NaN = NaN"
| "js_mul (Fin a) (Fin b) = Fin (a * b)"
| "js_mul a b = signed_inf (js_sgn a * js_sgn b)"

fun js_div :: "jsnum \<Rightarrow> jsnum \<Rightarrow> jsnum" where
  "js_div NaN _ = NaN"
| "js_div _ NaN = NaN"
| "js_div (Fin a) (Fin b) = (if b = 0 then signed_inf (js_sgn (Fin a)) else Fin (a / b))"
| "js_div (Fin a) _ = Fin 0"
| "js_div a (Fin b) = signed_inf (js_sgn a * (if b < 0 then - 1 else 1))"
| "js_div _ _ = NaN"

fun js_lt :: "jsnum \<Rightarrow> jsnum \<Rightarrow> bool" where
  "js_lt NaN _ = False"
| "js_lt _ NaN = False"
| "js_lt (Fin a) (Fin b) = (a < b)"
| "js_lt NInf b = (b \<noteq> NInf)"
| "js_lt a PInf = (a \<noteq> PInf)"
| "js_lt _ _ = False"

definition js_gt :: "jsnum \<Rightarrow> jsnum \<Rightarrow> bool" where
  "js_gt a b = js_lt b a"

fun js_abs :: "jsnum \<Rightarrow> jsnum" where
  "js_abs NaN = NaN"
| "js_abs PInf = PInf"
| "js_abs NInf = PInf"
| "js_abs (Fin a) = Fin \<bar>a\<bar>"

text \<open>\<open>Math.max\<close> of two numbers: \<open>NaN\<close> as soon as one of them is.\<close>

definition js_max :: "jsnum \<Rightarrow> jsnum \<Rightarrow> jsnum" where
  "js_max a b = (if js_isNaN a \<or> js_isNaN b then NaN else if js_lt a b then b else a)"

subsection \<open>Digits\<close>

definition is_digit :: "char \<Rightarrow> bool" where
  "is_digit c = (c \<in> set ''0123456789'')"

definition digit_val :: "char \<Rightarrow> nat" where
  "digit_val c = length (takeWhile (\<lambda>d. d \<noteq> c) ''0123456789'')"

definition digits_val :: "string \<Rightarrow> nat" where
  "digits_val ds = foldl (\<lambda>n c. 10 * n + digit_val c) 0 ds"

definition digit_char :: "nat \<Rightarrow> char" where
  "digit_char d = ''0123456789'' ! d"

fun digits10 :: "nat \<Rightarrow> string" where
  "digits10 n = (if n < 10 then [digit_char n] else digits10 (n div 10) @ [digit_char (n mod 10)])"

declare digits10.simps [simp del]

subsection \<open>\<open>Number::toString\<close>\<close>

text \<open>
  The number of fraction digits of a positive rational with a finite decimal expansion is the
  least \<open>j\<close> for which \<open>r * 10 ^ j\<close> is an integer; the search stops at the bound \<open>fuel\<close>.
\<close>

fun frac_digits :: "nat \<Rightarrow> rat \<Rightarrow> nat option" where
  "frac_digits fuel r =
     (if r = of_int \<lfloor>r\<rfloor> then Some 0
      else if fuel = 0 then None
      else map_option Suc (frac_digits (fuel - 1) (r * 10)))"

declare frac_digits.simps [simp del]

text \<open>Trailing zeros of a positive integer: the pair of what is left and how many went.\<close>

fun strip_zeros :: "nat \<Rightarrow> nat \<Rightarrow> nat \<times> nat" where
  "strip_zeros n z = (if n = 0 \<or> n mod 10 \<noteq> 0 then (n, z) else strip_zeros (n div 10) (Suc z))"

declare strip_zeros.simps [simp del]

definition show_int :: "int \<Rightarrow> string" where
  "show_int i = (if i < 0 then ''-'' @ digits10 (nat (- i)) else digits10 (nat i))"

text \<open>
  The rendering of \<open>s * 10 ^ (n - k)\<close>, where \<open>ds\<close> are the \<open>k\<close> digits of \<open>s\<close> (ECMAScript
  \<open>Number::toString\<close>, radix 10, the four cases on \<open>n\<close>).
\<close>

definition render_digits :: "string \<Rightarrow> int \<Rightarrow> string" where
  "render_digits ds n =
     (let k = int (length ds) in
      if k \<le> n \<and> n \<le> 21 then ds @ replicate (nat (n - k)) CHR ''0''
      else if 0 < n \<and> n \<le> 21 then take (nat n) ds @ ''.'' @ drop (nat n) ds
      else if - 6 < n \<and> n \<le> 0 then ''0.'' @ replicate (nat (- n)) CHR ''0'' @ ds
      else (if k = 1 then ds else take 1 ds @ ''.'' @ drop 1 ds)
           @ ''e'' @ (if n - 1 < 0 then ''-'' else ''+'') @ digits10 (nat \<bar>n - 1\<bar>))"

text \<open>
  A positive rational with a finite decimal expansion is rendered by its exact digits; no
  finite double has more than 1074 fraction digits, which bounds the search. A rational
  without a finite expansion is not a value that parsing a decimal text, or adding and
  multiplying such values, can give; it is rendered as a fraction to keep the function total.
\<close>

definition show_pos :: "rat \<Rightarrow> string" where
  "show_pos r =
     (case frac_digits 1074 r of
        None \<Rightarrow> (let (p, q) = quotient_of r in show_int p @ ''/'' @ show_int q)
      | Some j \<Rightarrow>
          (let (s, z) = strip_zeros (nat \<lfloor>r * 10 ^ j\<rfloor>) 0;
               ds = digits10 s
           in render_digits ds (int (length ds) + int z - int j)))"

fun numberToString :: "jsnum \<Rightarrow> string" where
  "numberToString NaN = ''NaN''"
| "numberToString PInf = ''Infinity''"
| "numberToString NInf = ''-Infinity''"
| "numberToString (Fin r) =
     (if r = 0 then ''0'' else if r < 0 then ''-'' @ show_pos (- r) else show_pos r)"

subsection \<open>\<open>Number.prototype.toFixed\<close>\<close>

text \<open>
  \<open>x.toFixed(f)\<close>: a value that is not finite, or of magnitude \<open>10 ^ 21\<close> or more, is rendered
  by \<open>Number::toString\<close>; otherwise the integer nearest to \<open>x * 10 ^ f\<close> (the larger one of
  two) is written with \<open>f\<close> digits after the point.
\<close>

definition fixed_digits :: "nat \<Rightarrow> rat \<Rightarrow> string" where
  "fixed_digits f a =
     (let ds = digits10 (nat \<lfloor>a * 10 ^ f + 1 / 2\<rfloor>);
          m = replicate (Suc f - length ds) CHR ''0'' @ ds
      in if f = 0 then m else take (length m - f) m @ ''.'' @ drop (length m - f) m)"

fun toFixed :: "nat \<Rightarrow> jsnum \<Rightarrow> string" where
  "toFixed f (Fin r) =
     (if 10 ^ 21 \<le> \<bar>r\<bar> then numberToString (Fin r)
      else (if r < 0 then ''-'' else '''') @ fixed_digits f \<bar>r\<bar>)"
| "toFixed f x = numberToString x"

subsection \<open>\<open>parseFloat\<close>\<close>

text \<open>
  \<open>parseFloat\<close> skips leading white space (here the six ASCII characters of it) and reads
  the longest prefix that is a decimal literal; the value is exact.
\<close>

definition is_space :: "char \<Rightarrow> bool" where
  "is_space c = (c \<in> set [CHR '' '', CHR 0x09, CHR 0x0A, CHR 0x0B, CHR 0x0C, CHR 0x0D])"

text \<open>An optional sign: the factor and the rest of the text.\<close>

fun take_sign :: "string \<Rightarrow> rat \<times> string" where
  "take_sign (c # cs) =
     (if c = CHR ''-'' then (- 1, cs) else if c = CHR ''+'' then (1, cs) else (1, c # cs))"
| "take_sign [] = (1, [])"

text \<open>
  An exponent part \<open>e\<close>, optional sign, at least one digit; a text that does not start with a
  complete one has exponent \<open>0\<close> and is left as it is.
\<close>

definition take_exponent :: "string \<Rightarrow> int \<times> string" where
  "take_exponent s =
     (case s of
        [] \<Rightarrow> (0, s)
      | c # cs \<Rightarrow>
          if c = CHR ''e'' \<or> c = CHR ''E'' then
            (let (sg, r) = take_sign cs; ds = takeWhile is_digit r in
             if ds = [] then (0, s)
             else ((if sg < 0 then - 1 else 1) * int (digits_val ds), dropWhile is_digit r))
          else (0, s))"

definition pow10 :: "int \<Rightarrow> rat" where
  "pow10 e = (if e < 0 then 1 / 10 ^ nat (- e) else 10 ^ nat e)"

text \<open>
  The longest prefix that is a \<open>StrDecimalLiteral\<close>: its value and the text after it, or
  \<open>None\<close> when no prefix is one.
\<close>

definition parse_decimal :: "string \<Rightarrow> (jsnum \<times> string) option" where
  "parse_decimal s =
     (let (sg, r) = take_sign s in
      if take 8 r = ''Infinity'' then Some (if sg < 0 then NInf else PInf, drop 8 r)
      else
        (let ip = takeWhile is_digit r;
             r1 = dropWhile is_digit r;
             fp = (case r1 of [] \<Rightarrow> [] | c # cs \<Rightarrow> if c = CHR ''.'' then takeWhile is_digit cs else []);
             r2 = (case r1 of [] \<Rightarrow> [] | c # cs \<Rightarrow> if c = CHR ''.'' then dropWhile is_digit cs else r1)
         in if ip = [] \<and> fp = [] then None
            else
              (let (e, r3) = take_exponent r2
               in Some (Fin (sg * of_nat (digits_val (ip @ fp)) * pow10 (e - int (length fp))), r3))))"

definition parseFloat :: "string \<Rightarrow> jsnum" where
  "parseFloat s = (case parse_decimal (dropWhile is_space s) of None \<Rightarrow> NaN | Some (v, _) \<Rightarrow> v)"


subsection \<open>Upstream values of type \<open>any\<close>\<close>












subsection \<open>Errors and the \<open>Map\<close> of the standard library\<close>

datatype js_error = Error (message: string)

text \<open>\<open>error.message || 'Unknown error'\<close>.\<close>

definition message_or_unknown :: "js_error \<Rightarrow> string" where
  "message_or_unknown e = (if message e = [] then ''Unknown error'' else message e)"

text \<open>
  A \<open>Map\<close> keeps its entries in the order in which their keys were first set; setting a key
  that is there replaces the value in place.
\<close>

type_synonym ('k, 'v) jsmap = "('k \<times> 'v) list"

fun map_set :: "('k, 'v) jsmap \<Rightarrow> 'k \<Rightarrow> 'v \<Rightarrow> ('k, 'v) jsmap" where
  "map_set [] k v = [(k, v)]"
| "map_set ((k', v') # m) k v = (if k' = k then (k', v) # m else (k', v') # map_set m k v)"

definition new_Map :: "('k \<times> 'v) list \<Rightarrow> ('k, 'v) jsmap" where
  "new_Map es = foldl (\<lambda>m (k, v). map_set m k v) [] es"

definition map_has :: "('k, 'v) jsmap \<Rightarrow> 'k \<Rightarrow> bool" where
  "map_has m k = (map_of m k \<noteq> None)"

section \<open>The data model (\<open>types\<close>)\<close>

text \<open>
  The interfaces of the program, one record each. Several interfaces share field names
  (\<open>id\<close>, \<open>user\<close>, \<open>timestamp\<close>, \<open>totalValue\<close>, \<open>dryRun\<close>), so every field carries a short prefix
  for its interface.
\<close>

record Market =
  m_id :: string
  m_question :: string
  m_slug :: string
  m_description :: "string option"
  m_endDate :: "string option"
  m_image :: "string option"
  m_icon :: "string option"
  m_resolutionSource :: "string option"
  m_tags :: "string list"
  m_liquidity :: "jsnum option"
  m_volume :: "jsnum option"
  m_active :: bool

record Position =
  p_id :: string
  p_market :: Market
  p_outcome :: string
  p_quantity :: string
  p_price :: string
  p_value :: string
  p_initialValue :: "string option"
  p_timestamp :: string

datatype trade_side = Buy | Sell

record Trade =
  t_id :: string
  t_market :: Market
  t_outcome :: string
  t_side :: trade_side
  t_quantity :: string
  t_price :: string
  t_timestamp :: string
  t_transactionHash :: "string option"
  t_user :: string

record UserPositions =
  up_user :: string
  up_positions :: "Position list"
  up_totalValue :: string
  up_timestamp :: string

record TradingStatus =
  ts_user :: string
  ts_totalPositions :: nat
  ts_totalValue :: string
  ts_recentTrades :: "Trade list"
  ts_openPositions :: "Position list"
  ts_lastUpdated :: string


section \<open>The data-source client (\<open>PolymarketClient\<close>)\<close>

subsection \<open>The current value of a normalized position\<close>






subsection \<open>The total value of a snapshot\<close>

text \<open>\<open>positions.reduce\<close> from \<open>0\<close>, from the left; \<open>pos.value || '0'\<close> reads an empty text as \<open>'0'\<close>.\<close>

definition value_or_zero :: "string \<Rightarrow> string" where
  "value_or_zero v = (if v = [] then ''0'' else v)"

definition calculateTotalValue :: "Position list \<Rightarrow> string" where
  "calculateTotalValue positions =
     toFixed 6
       (foldl (\<lambda>sum pos.
                 let v = parseFloat (value_or_zero (p_value pos))
                 in js_add sum (if js_isNaN v then Fin 0 else v))
              (Fin 0) positions)"

text \<open>
  The object that \<open>getUserPositions\<close> returns once the upstream records are fetched and
  normalized (the fetching itself, with its fallbacks, is outside the model).
\<close>

definition userPositions_of :: "string \<Rightarrow> Position list \<Rightarrow> string \<Rightarrow> UserPositions" where
  "userPositions_of userAddress normalizedPositions now =
     \<lparr>up_user = userAddress, up_positions = normalizedPositions,
      up_totalValue = calculateTotalValue normalizedPositions, up_timestamp = now\<rparr>"

section \<open>The account monitor (\<open>AccountMonitor\<close>)\<close>

text \<open>
  A callback returns, or throws: \<open>None\<close> is a normal return, \<open>Some e\<close> the error thrown.
  Callbacks only observe their arguments.
\<close>

record MonitorOptions =
  targetAddress :: string
  pollInterval :: int
  enableWebSocket :: bool
  onUpdate :: "TradingStatus \<Rightarrow> js_error option"
  onError :: "js_error \<Rightarrow> js_error option"

record MonitorState =
  lastStatus :: "TradingStatus option"
  lastPollTime :: "int option"

text \<open>The lines the monitor prints with \<open>[DEBUG]\<close>, one constructor for each.\<close>

datatype debug =
    CountChanged nat nat
  | NewPositionId string
  | QuantityChanged string jsnum jsnum
  | PositionRemoved string
  | TotalValueChanged jsnum jsnum

text \<open>What a poll tick does that can be seen from outside, in the order in which it does it.\<close>

datatype mon_event =
    FetchWarning string
  | DebugLog debug
  | PollingLog nat
  | NewPositionsLog "Position list"
  | UpdatedLog "(Position \<times> string \<times> string) list"
  | RemovedLog "Position list"
  | CountLog nat nat
  | UpdateCb TradingStatus
  | ErrorLog string
  | ErrorCb js_error

subsection \<open>\<open>getStatus\<close>\<close>

text \<open>
  \<open>fetched\<close> is how the promise of \<open>client.getUserPositions\<close> settled: \<open>Inr\<close> fulfilled,
  \<open>Inl\<close> rejected. \<open>Promise.allSettled\<close> never rejects and nothing else in the body throws, so
  the function always returns a status; \<open>now\<close> is the clock read as ISO text.
\<close>

definition emptyPositions :: "string \<Rightarrow> string \<Rightarrow> UserPositions" where
  "emptyPositions address now =
     \<lparr>up_user = address, up_positions = [], up_totalValue = ''0'', up_timestamp = now\<rparr>"

definition getStatus ::
  "MonitorOptions \<Rightarrow> js_error + UserPositions \<Rightarrow> string \<Rightarrow> TradingStatus \<times> mon_event list" where
  "getStatus opts fetched now =
     (let positions = (case fetched of Inr v \<Rightarrow> v | Inl _ \<Rightarrow> emptyPositions (targetAddress opts) now);
          warnings = (case fetched of Inr _ \<Rightarrow> [] | Inl reason \<Rightarrow> [FetchWarning (message_or_unknown reason)])
      in (\<lparr>ts_user = targetAddress opts,
           ts_totalPositions = length (up_positions positions),
           ts_totalValue = up_totalValue positions,
           ts_recentTrades = [],
           ts_openPositions = up_positions positions,
           ts_lastUpdated = now\<rparr>, warnings))"

subsection \<open>\<open>detectChanges\<close>\<close>

text \<open>
  The two numeric tests of the detector, on the parsed numbers:
  \<open>Math.abs(currentQty - lastQty) > Math.max(1, lastQty * 0.01)\<close> and
  \<open>Math.abs(currentValue - lastValue) / Math.max(lastValue, 0.01) > 0.01\<close>.
\<close>

definition quantityChanged :: "jsnum \<Rightarrow> jsnum \<Rightarrow> bool" where
  "quantityChanged currentQty lastQty =
     js_gt (js_abs (js_sub currentQty lastQty)) (js_max (Fin 1) (js_mul lastQty (Fin (1 / 100))))"

definition valueChanged :: "jsnum \<Rightarrow> jsnum \<Rightarrow> bool" where
  "valueChanged currentValue lastValue =
     js_gt (js_div (js_abs (js_sub currentValue lastValue)) (js_max lastValue (Fin (1 / 100))))
           (Fin (1 / 100))"

text \<open>
  The loop over the entries of \<open>currentPositionsMap\<close>: the first entry whose identifier is not
  in \<open>lastPositionsMap\<close>, or whose quantity changed, ends it.
\<close>

fun scanCurrent :: "(string, Position) jsmap \<Rightarrow> (string \<times> Position) list \<Rightarrow> debug option" where
  "scanCurrent lastPositionsMap [] = None"
| "scanCurrent lastPositionsMap ((i, currentPos) # rest) =
     (case map_of lastPositionsMap i of
        None \<Rightarrow> Some (NewPositionId i)
      | Some lastPos \<Rightarrow>
          (let currentQty = parseFloat (p_quantity currentPos);
               lastQty = parseFloat (p_quantity lastPos)
           in if quantityChanged currentQty lastQty
              then Some (QuantityChanged i lastQty currentQty)
              else scanCurrent lastPositionsMap rest))"

text \<open>The loop over the keys of \<open>lastPositionsMap\<close>.\<close>

fun scanRemoved :: "(string, Position) jsmap \<Rightarrow> string list \<Rightarrow> debug option" where
  "scanRemoved currentPositionsMap [] = None"
| "scanRemoved currentPositionsMap (i # rest) =
     (if \<not> map_has currentPositionsMap i then Some (PositionRemoved i)
      else scanRemoved currentPositionsMap rest)"

text \<open>\<open>new Map(status.openPositions.map(p => [p.id, p]))\<close>.\<close>

definition positionsMap :: "TradingStatus \<Rightarrow> (string, Position) jsmap" where
  "positionsMap status = new_Map (map (\<lambda>p. (p_id p, p)) (ts_openPositions status))"

text \<open>
  \<open>detectChanges\<close> reads \<open>this.lastStatus\<close>, here its first argument. The result is the boolean
  it returns together with the \<open>[DEBUG]\<close> lines it prints on the way.
\<close>

definition detectChanges :: "TradingStatus option \<Rightarrow> TradingStatus \<Rightarrow> bool \<times> debug list" where
  "detectChanges previous status =
     (case previous of
        None \<Rightarrow> (True, [])
      | Some lastSt \<Rightarrow>
          if length (ts_openPositions status) \<noteq> length (ts_openPositions lastSt)
          then (True, [CountChanged (length (ts_openPositions lastSt)) (length (ts_openPositions status))])
          else
            (let currentPositionsMap = positionsMap status;
                 lastPositionsMap = positionsMap lastSt
             in case scanCurrent lastPositionsMap currentPositionsMap of
                  Some d \<Rightarrow> (True, [d])
                | None \<Rightarrow>
                    (case scanRemoved currentPositionsMap (map fst lastPositionsMap) of
                       Some d \<Rightarrow> (True, [d])
                     | None \<Rightarrow>
                         (let lastValue = parseFloat (ts_totalValue lastSt);
                              currentValue = parseFloat (ts_totalValue status)
                          in if valueChanged currentValue lastValue
                             then (True, [TotalValueChanged lastValue currentValue])
                             else (False, [])))))"

subsection \<open>\<open>updateStatus\<close>\<close>

text \<open>
  The three lists that \<open>updateStatus\<close> collects once a change was detected against a
  previous status: \<open>newPositions\<close>, \<open>updatedPositions\<close> and \<open>removedPositions\<close>.
\<close>

definition newPositions :: "TradingStatus \<Rightarrow> TradingStatus \<Rightarrow> Position list" where
  "newPositions lastSt status =
     filter (\<lambda>p. \<not> list_ex (\<lambda>lp. p_id lp = p_id p) (ts_openPositions lastSt)) (ts_openPositions status)"

definition removedPositions :: "TradingStatus \<Rightarrow> TradingStatus \<Rightarrow> Position list" where
  "removedPositions lastSt status =
     filter (\<lambda>lp. \<not> list_ex (\<lambda>p. p_id p = p_id lp) (ts_openPositions status)) (ts_openPositions lastSt)"

definition updatedPositions :: "TradingStatus \<Rightarrow> TradingStatus \<Rightarrow> (Position \<times> string \<times> string) list" where
  "updatedPositions lastSt status =
     concat (map (\<lambda>currentPos.
                    case find (\<lambda>lp. p_id lp = p_id currentPos) (ts_openPositions lastSt) of
                      None \<Rightarrow> []
                    | Some lastPos \<Rightarrow>
                        if quantityChanged (parseFloat (p_quantity currentPos)) (parseFloat (p_quantity lastPos))
                        then [(currentPos, p_quantity lastPos, p_quantity currentPos)]
                        else [])
                 (ts_openPositions status))"

text \<open>What is printed from the three lists: a list that is empty prints nothing.\<close>

definition changeLogs :: "TradingStatus \<Rightarrow> TradingStatus \<Rightarrow> mon_event list" where
  "changeLogs lastSt status =
     (if newPositions lastSt status \<noteq> [] then [NewPositionsLog (newPositions lastSt status)] else [])
     @ (if updatedPositions lastSt status \<noteq> [] then [UpdatedLog (updatedPositions lastSt status)] else [])
     @ (if removedPositions lastSt status \<noteq> [] then [RemovedLog (removedPositions lastSt status)] else [])
     @ (if length (ts_openPositions status) \<noteq> length (ts_openPositions lastSt)
        then [CountLog (length (ts_openPositions lastSt)) (length (ts_openPositions status))] else [])"

text \<open>
  One poll tick. \<open>nowMs\<close> is \<open>Date.now()\<close>. The result is the error that leaves the function
  (only an error thrown by \<open>onError\<close> inside the handler can), the state after the tick and
  the events of the tick.
\<close>

definition updateStatus ::
  "MonitorOptions \<Rightarrow> MonitorState \<Rightarrow> js_error + UserPositions \<Rightarrow> string \<Rightarrow> int
     \<Rightarrow> js_error option \<times> MonitorState \<times> mon_event list" where
  "updateStatus opts st fetched now nowMs =
     (let (status, warnings) = getStatus opts fetched now;
          (hasChanges, debugs) = detectChanges (lastStatus st) status;
          pollDue = (case lastPollTime st of None \<Rightarrow> True | Some t \<Rightarrow> t = 0 \<or> nowMs - t > 10000);
          st1 = (if pollDue then st\<lparr>lastPollTime := Some nowMs\<rparr> else st);
          evs = warnings @ map DebugLog debugs
                @ (if pollDue then [PollingLog (length (ts_openPositions status))] else [])
      in if hasChanges \<or> lastStatus st = None then
           (let logs = (case lastStatus st of
                          Some lastSt \<Rightarrow> if hasChanges then changeLogs lastSt status else []
                        | None \<Rightarrow> []);
                st2 = st1\<lparr>lastStatus := Some status\<rparr>;
                evs2 = evs @ logs @ [UpdateCb status]
            in case onUpdate opts status of
                 None \<Rightarrow> (None, st2, evs2)
               | Some e \<Rightarrow> (onError opts e, st2, evs2 @ [ErrorLog (message e), ErrorCb e]))
         else (None, st1, evs))"

section \<open>The trade executor (\<open>TradeExecutor\<close>)\<close>






















section \<open>The copy-trading monitor (\<open>CopyTradingMonitor\<close>)\<close>

text \<open>
  \<open>handleStatusUpdate\<close> runs on every \<open>onUpdate\<close> of the account monitor. Before it executes
  any trade it builds \<open>currentPositions\<close> and, against the \<open>targetPositions\<close> it kept from the
  update before, the lists \<open>newPositions\<close> and \<open>closedPositions\<close>.
\<close>

definition currentPositions :: "TradingStatus \<Rightarrow> (string, Position) jsmap" where
  "currentPositions status = foldl (\<lambda>m pos. map_set m (p_id pos) pos) [] (ts_openPositions status)"

definition detectedNew :: "(string, Position) jsmap \<Rightarrow> TradingStatus \<Rightarrow> Position list" where
  "detectedNew targetPositions status =
     map snd (filter (\<lambda>(i, position). \<not> map_has targetPositions i) (currentPositions status))"

definition detectedClosed :: "(string, Position) jsmap \<Rightarrow> TradingStatus \<Rightarrow> Position list" where
  "detectedClosed targetPositions status =
     map snd (filter (\<lambda>(i, position). \<not> map_has (currentPositions status) i) targetPositions)"

section \<open>Notions of the specification\<close>















section \<open>Sample data\<close>

text \<open>
  Positions, snapshots and configurations on which the closed instances below run the
  program. \<open>unknownMarket\<close> is the placeholder market of a record without market data.
\<close>

definition unknownMarket :: Market where
  "unknownMarket =
     \<lparr>m_id = [], m_question = ''Unknown Market'', m_slug = [], m_description = None,
      m_endDate = None, m_image = None, m_icon = None, m_resolutionSource = None, m_tags = [],
      m_liquidity = None, m_volume = None, m_active = True\<rparr>"

definition position_of :: "string \<Rightarrow> string \<Rightarrow> string \<Rightarrow> string \<Rightarrow> Position" where
  "position_of i quantity price val =
     \<lparr>p_id = i, p_market = unknownMarket, p_outcome = ''Yes'', p_quantity = quantity,
      p_price = price, p_value = val, p_initialValue = None,
      p_timestamp = ''2024-01-01T00:00:00.000Z''\<rparr>"

definition status_of :: "Position list \<Rightarrow> string \<Rightarrow> TradingStatus" where
  "status_of ps totalText =
     \<lparr>ts_user = ''0xabc'', ts_totalPositions = length ps, ts_totalValue = totalText,
      ts_recentTrades = [], ts_openPositions = ps, ts_lastUpdated = ''2024-01-01T00:00:00.000Z''\<rparr>"

definition quietOptions :: MonitorOptions where
  "quietOptions =
     \<lparr>targetAddress = ''0xabc'', pollInterval = 30000, enableWebSocket = False,
      onUpdate = (\<lambda>_. None), onError = (\<lambda>_. None)\<rparr>"



section \<open>Evaluation of the library functions on literals\<close>











lemmas sample_defs = position_of_def status_of_def unknownMarket_def quietOptions_def

section \<open>The \<open>Map\<close> model\<close>

lemma map_of_map_set: "map_of (map_set m k v) = (map_of m)(k \<mapsto> v)"
  by (induction m k v rule: map_set.induct) (auto simp: fun_eq_iff)

lemma map_set_fresh: "k \<notin> fst ` set m \<Longrightarrow> map_set m k v = m @ [(k, v)]"
  by (induction m k v rule: map_set.induct) auto

lemma foldl_map_set_distinct:
  "distinct (map fst (m @ es)) \<Longrightarrow> foldl (\<lambda>m (k, v). map_set m k v) m es = m @ es"
proof (induction es arbitrary: m)
  case Nil
  then show ?case by simp
next
  case (Cons e es)
  obtain k v where e: "e = (k, v)" by (cases e)
  from Cons.prems have fresh: "k \<notin> fst ` set m" by (auto simp: e)
  from Cons.prems have "distinct (map fst ((m @ [(k, v)]) @ es))" by (simp add: e)
  from Cons.IH [OF this] show ?case by (simp add: e map_set_fresh [OF fresh])
qed

lemma new_Map_distinct: "distinct (map fst es) \<Longrightarrow> new_Map es = es"
  using foldl_map_set_distinct [of "[]" es] by (simp add: new_Map_def)

lemma foldl_map_set_dom:
  "dom (map_of (foldl (\<lambda>m (k, v). map_set m k v) m es)) = dom (map_of m) \<union> fst ` set es"
proof (induction es arbitrary: m)
  case Nil
  then show ?case by simp
next
  case (Cons e es)
  obtain k v where e: "e = (k, v)" by (cases e)
  have "dom (map_of (map_set m k v)) = insert k (dom (map_of m))"
    by (simp only: map_of_map_set dom_fun_upd) simp
  then show ?case by (simp add: e Cons.IH)
qed

lemma new_Map_keys: "fst ` set (new_Map es) = fst ` set es"
  using foldl_map_set_dom [of "[]" es] by (simp add: new_Map_def dom_map_of_conv_image_fst)


lemma positionsMap_keys: "fst ` set (positionsMap status) = p_id ` set (ts_openPositions status)"
  by (simp add: positionsMap_def new_Map_keys image_image)

lemma positionsMap_distinct:
  "distinct (map p_id (ts_openPositions status)) \<Longrightarrow>
     positionsMap status = map (\<lambda>p. (p_id p, p)) (ts_openPositions status)"
  by (simp add: positionsMap_def new_Map_distinct comp_def)

lemma currentPositions_eq: "currentPositions status = positionsMap status"
proof -
  have "foldl (\<lambda>m pos. map_set m (p_id pos) pos) m ps
          = foldl (\<lambda>m (k, v). map_set m k v) m (map (\<lambda>p. (p_id p, p)) ps)" for m ps
    by (induction ps arbitrary: m) simp_all
  then show ?thesis by (simp add: currentPositions_def positionsMap_def new_Map_def)
qed

section \<open>The two scans of the detector\<close>










lemma set_foldl_map_set:
  "set (foldl (\<lambda>m (k, v). map_set m k v) m es) \<subseteq> set m \<union> set es"
proof (induction es arbitrary: m)
  case Nil
  then show ?case by simp
next
  case (Cons e es)
  obtain k v where e: "e = (k, v)" by (cases e)
  have "set (map_set m k v) \<subseteq> insert (k, v) (set m)"
    by (induction m k v rule: map_set.induct) auto
  with Cons.IH [of "map_set m k v"] show ?case by (auto simp: e)
qed

lemma set_positionsMap: "set (positionsMap status) \<subseteq> (\<lambda>p. (p_id p, p)) ` set (ts_openPositions status)"
  using set_foldl_map_set [of "[]" "map (\<lambda>p. (p_id p, p)) (ts_openPositions status)"]
  by (simp add: positionsMap_def new_Map_def)

section \<open>The numeric tests on finite numbers\<close>



section \<open>Bootstrap\<close>

lemma detectedNew_empty: "detectedNew [] status = map snd (positionsMap status)"
  by (simp add: detectedNew_def currentPositions_eq map_has_def case_prod_unfold)

lemma updateStatus_bootstrap:
  assumes "lastStatus st = None"
  shows "lastStatus (fst (snd (updateStatus opts st fetched now nowMs))) = Some (fst (getStatus opts fetched now))"
    and "UpdateCb (fst (getStatus opts fetched now)) \<in> set (snd (snd (updateStatus opts st fetched now nowMs)))"
    and "NewPositionsLog ps \<notin> set (snd (snd (updateStatus opts st fetched now nowMs)))"
    and "UpdatedLog us \<notin> set (snd (snd (updateStatus opts st fetched now nowMs)))"
    and "RemovedLog ps \<notin> set (snd (snd (updateStatus opts st fetched now nowMs)))"
  using assms
  by (auto simp: updateStatus_def getStatus_def detectChanges_def Let_def
           split: prod.splits option.splits sum.splits)

text \<open>
  C7. Without a previous snapshot the detector always reports a change. The monitor then
  stores the snapshot and hands it to \<open>onUpdate\<close>, printing no list of updated or removed
  positions; the copy-trading monitor, whose \<open>targetPositions\<close> are empty at that moment,
  classifies the positions of the snapshot as new (one per identifier, and exactly the list of
  the snapshot when its identifiers are distinct) and none as closed.
\<close>

theorem bootstrap_reports_every_position_added:
  "detectChanges None status = (True, [])
   \<and> detectedClosed [] status = []
   \<and> p_id ` set (detectedNew [] status) = p_id ` set (ts_openPositions status)
   \<and> (distinct (map p_id (ts_openPositions status)) \<longrightarrow> detectedNew [] status = ts_openPositions status)
   \<and> (lastStatus st = None \<longrightarrow>
        lastStatus (fst (snd (updateStatus opts st fetched now nowMs))) = Some (fst (getStatus opts fetched now))
        \<and> UpdateCb (fst (getStatus opts fetched now)) \<in> set (snd (snd (updateStatus opts st fetched now nowMs)))
        \<and> (\<forall>ps. NewPositionsLog ps \<notin> set (snd (snd (updateStatus opts st fetched now nowMs))))
        \<and> (\<forall>us. UpdatedLog us \<notin> set (snd (snd (updateStatus opts st fetched now nowMs))))
        \<and> (\<forall>ps. RemovedLog ps \<notin> set (snd (snd (updateStatus opts st fetched now nowMs)))))"
proof -
  have ids: "p_id ` set (detectedNew [] status) = p_id ` set (ts_openPositions status)"
  proof -
    have "set (positionsMap status) \<subseteq> (\<lambda>p. (p_id p, p)) ` set (ts_openPositions status)"
      by (rule set_positionsMap)
    then have "p_id ` snd ` set (positionsMap status) = fst ` set (positionsMap status)"
      by (force simp: image_iff)
    then show ?thesis
      by (simp add: detectedNew_empty positionsMap_keys)
  qed
  have dist: "distinct (map p_id (ts_openPositions status)) \<longrightarrow> detectedNew [] status = ts_openPositions status"
    by (simp add: detectedNew_empty positionsMap_distinct comp_def)
  have mon: "lastStatus st = None \<longrightarrow>
        lastStatus (fst (snd (updateStatus opts st fetched now nowMs))) = Some (fst (getStatus opts fetched now))
        \<and> UpdateCb (fst (getStatus opts fetched now)) \<in> set (snd (snd (updateStatus opts st fetched now nowMs)))
        \<and> (\<forall>ps. NewPositionsLog ps \<notin> set (snd (snd (updateStatus opts st fetched now nowMs))))
        \<and> (\<forall>us. UpdatedLog us \<notin> set (snd (snd (updateStatus opts st fetched now nowMs))))
        \<and> (\<forall>ps. RemovedLog ps \<notin> set (snd (snd (updateStatus opts st fetched now nowMs))))"
    using updateStatus_bootstrap [where st = st and opts = opts and fetched = fetched and now = now
                                     and nowMs = nowMs]
    by blast
  have "detectChanges None status = (True, [])" and "detectedClosed [] status = []"
    by (simp_all add: detectChanges_def detectedClosed_def)
  with ids dist mon show ?thesis
    by blast
qed

theorem bootstrap_reports_every_position_added_witness:
  "distinct (map p_id (ts_openPositions (status_of [position_of ''T1'' ''100'' ''0.5'' ''50'', position_of ''T2'' ''10'' ''0.2'' ''2''] ''52'')))
   \<and> detectedNew [] (status_of [position_of ''T1'' ''100'' ''0.5'' ''50'', position_of ''T2'' ''10'' ''0.2'' ''2''] ''52'')
       = [position_of ''T1'' ''100'' ''0.5'' ''50'', position_of ''T2'' ''10'' ''0.2'' ''2'']
   \<and> lastStatus \<lparr>lastStatus = None, lastPollTime = None\<rparr> = None
   \<and> lastStatus (fst (snd (updateStatus quietOptions \<lparr>lastStatus = None, lastPollTime = None\<rparr>
         (Inr (userPositions_of ''0xabc'' [position_of ''T1'' ''100'' ''0.5'' ''50''] ''t0'')) ''t0'' 1000)))
       = Some (fst (getStatus quietOptions
           (Inr (userPositions_of ''0xabc'' [position_of ''T1'' ''100'' ''0.5'' ''50''] ''t0'')) ''t0''))"
proof -
  let ?s = "status_of [position_of ''T1'' ''100'' ''0.5'' ''50'', position_of ''T2'' ''10'' ''0.2'' ''2''] ''52''"
  let ?st = "\<lparr>lastStatus = None, lastPollTime = None\<rparr>"
  have d: "distinct (map p_id (ts_openPositions ?s))"
    by (simp add: sample_defs)
  have n: "lastStatus ?st = None"
    by simp
  from bootstrap_reports_every_position_added
         [of ?s ?st quietOptions "Inr (userPositions_of ''0xabc'' [position_of ''T1'' ''100'' ''0.5'' ''50''] ''t0'')" "''t0''" 1000]
       d n
  show ?thesis by (simp add: sample_defs)
qed

section \<open>Thresholds of the detector\<close>





section \<open>Order of the detector and the lists of the tick\<close>









section \<open>A poll tick whose fetch fails\<close>








section \<open>The paths of the executor\<close>























section \<open>The current value of a normalized position\<close>




section \<open>The total value of a snapshot\<close>











end
